theory Spec2Isabelle
  imports Main
begin

section \<open>The Mixpanel client of \<^verbatim>\<open>mixpanel.go\<close>\<close>

text \<open>
  The package is a thin client: every public method builds a map (the envelope), hands it
  to \<^verbatim>\<open>get\<close>, which serialises it with \<^verbatim>\<open>json.Marshal\<close>, encodes the bytes with
  \<^verbatim>\<open>base64.StdEncoding\<close>, fetches a URL with \<^verbatim>\<open>http.Get\<close> and reads the body with
  \<^verbatim>\<open>ioutil.ReadAll\<close>. The four library functions belong to the Go standard library, not
  to the package, so the model takes them as parameters (the record \<open>env\<close>); everything
  the package itself does is written out. The source file holds the package twice; the
  model follows the first copy, the one whose client has the field
  \<^verbatim>\<open>OverrideIPAddress\<close> and whose methods are named \<^verbatim>\<open>ProfileSet\<close> and so on.
\<close>

subsection \<open>Values, errors and panics\<close>

text \<open>
  The dynamic values an \<^verbatim>\<open>interface{}\<close> holds in this package. Maps and slices are
  reference types that may be nil, hence the \<open>option\<close>: \<open>None\<close> is the nil map or the nil
  slice. \<open>VOther\<close> stands for a value of any other Go type.
\<close>

datatype 'a go_value =
    VNil
  | VBool bool
  | VInt int
  | VString string
  | VSlice "'a go_value list option"
  | VStrings "string list option"
  | VMap "(string \<Rightarrow> 'a go_value option) option"
  | VIntMap "(string \<Rightarrow> int option) option"
  | VOther 'a

text \<open>
  Go compares errors by identity. The package declares two of its own; every other error
  comes from the standard library and is carried through as \<open>Foreign\<close>.
\<close>

datatype error =
    ErrUnexpectedTrackResponse
  | ErrUnexpectedEngageResponse
  | Foreign string

datatype panic =
    NilPointerDereference
  | AssignmentToNilMap

datatype 'r outcome =
    Return 'r
  | Panic panic

subsection \<open>The client\<close>

definition BASE_URL :: string where
  "BASE_URL = ''https://api.mixpanel.com''"

record Mixpanel =
  Token :: string
  BaseURL :: string
  OverrideIPAddress :: string

text \<open>
  \<^verbatim>\<open>NewMixpanelClient(args ...string) *Mixpanel\<close>: the result is a pointer, nil (\<open>None\<close>)
  when no argument is given. The composite literals leave \<^verbatim>\<open>OverrideIPAddress\<close> at its
  zero value, the empty string.
\<close>

definition NewMixpanelClient :: "string list \<Rightarrow> Mixpanel option" where
  "NewMixpanelClient args =
     (if length args = 1 then
        Some \<lparr>Token = args ! 0, BaseURL = BASE_URL, OverrideIPAddress = ''''\<rparr>
      else if length args > 1 then
        Some \<lparr>Token = args ! 0, BaseURL = args ! 1, OverrideIPAddress = ''''\<rparr>
      else None)"

subsection \<open>The standard library and the outside world\<close>

text \<open>
  \<open>json_Marshal\<close> may fail; \<open>http_Get\<close> returns a response or fails; \<open>ioutil_ReadAll\<close>
  returns the bytes read so far together with an error or nil, as the Go function does.
\<close>

record ('a, 'r) env =
  json_Marshal :: "'a go_value \<Rightarrow> error + string"
  base64_EncodeToString :: "string \<Rightarrow> string"
  http_Get :: "string \<Rightarrow> error + 'r"
  ioutil_ReadAll :: "'r \<Rightarrow> string \<times> error option"

text \<open>What the program does to the outside world, oldest first.\<close>

datatype io_event =
    HttpGet string
  | BodyRead
  | BodyClose

text \<open>
  The state the methods run in: the struct behind the receiver pointer \<^verbatim>\<open>m\<close> (\<open>None\<close>
  when \<^verbatim>\<open>m\<close> is nil) and the trace of input and output so far.
\<close>

record world =
  mixpanel :: "Mixpanel option"
  trace :: "io_event list"

subsection \<open>The shared request routine\<close>

text \<open>
  \<^verbatim>\<open>func (m *Mixpanel) get(url string, data map[string]interface{}) (string, error)\<close>.
  The receiver is not used. The deferred \<^verbatim>\<open>res.Body.Close()\<close> runs when the function
  returns, after the body has been read.
\<close>

definition get ::
  "('a, 'r) env \<Rightarrow> string \<Rightarrow> (string \<Rightarrow> 'a go_value option) \<Rightarrow> world \<Rightarrow>
     (string \<times> error option) \<times> world" where
  "get e url data w =
     (case json_Marshal e (VMap (Some data)) of
        Inl err \<Rightarrow> (('''', Some err), w)
      | Inr jsonedData \<Rightarrow>
          (let base64JSONData = base64_EncodeToString e jsonedData;
               target = url @ ''?data='' @ base64JSONData
           in case http_Get e target of
                Inl err \<Rightarrow> (('''', Some err), w\<lparr>trace := trace w @ [HttpGet target]\<rparr>)
              | Inr res \<Rightarrow>
                  (ioutil_ReadAll e res,
                   w\<lparr>trace := trace w @ [HttpGet target, BodyRead, BodyClose]\<rparr>)))"

subsection \<open>Track\<close>

text \<open>
  Lines 45 to 49 of \<^verbatim>\<open>Track\<close>: the envelope and the caller's map after the assignment
  \<^verbatim>\<open>properties["token"] = m.Token\<close>. The envelope holds a reference to the caller's map,
  which is serialised after the assignment, so the envelope holds the map with the token.
\<close>

definition Track_data ::
  "Mixpanel \<Rightarrow> string \<Rightarrow> (string \<Rightarrow> 'a go_value option) \<Rightarrow>
     (string \<Rightarrow> 'a go_value option) \<times> (string \<Rightarrow> 'a go_value option)" where
  "Track_data c event properties =
     (let data = Map.empty;
          data = data(''event'' \<mapsto> VString event);
          properties = properties(''token'' \<mapsto> VString (Token c));
          data = data(''properties'' \<mapsto> VMap (Some properties))
      in (data, properties))"

text \<open>
  \<^verbatim>\<open>func (m *Mixpanel) Track(event string, properties map[string]interface{}) error\<close>.
  The result is the returned error (or the panic), the caller's map after the call and the
  world after the call. Reading \<^verbatim>\<open>m.Token\<close> through a nil receiver panics before the
  assignment is carried out; assigning to an entry of a nil map panics.
\<close>

definition Track ::
  "('a, 'r) env \<Rightarrow> string \<Rightarrow> (string \<Rightarrow> 'a go_value option) option \<Rightarrow> world \<Rightarrow>
     error option outcome \<times> (string \<Rightarrow> 'a go_value option) option \<times> world" where
  "Track e event properties w =
     (case mixpanel w of
        None \<Rightarrow> (Panic NilPointerDereference, properties, w)
      | Some c \<Rightarrow>
          (case properties of
             None \<Rightarrow> (Panic AssignmentToNilMap, None, w)
           | Some p \<Rightarrow>
               (let (data, properties') = Track_data c event p;
                    ((response, err), w') = get e (BaseURL c @ ''/track/'') data w
                in (Return (case err of
                              Some x \<Rightarrow> Some x
                            | None \<Rightarrow>
                                if response \<noteq> ''1'' then Some ErrUnexpectedTrackResponse
                                else None),
                    Some properties', w'))))"

subsection \<open>Profile operations\<close>

text \<open>Lines 124 to 131 of \<^verbatim>\<open>engage\<close>: the envelope.\<close>

definition engage_data ::
  "Mixpanel \<Rightarrow> string \<Rightarrow> string \<Rightarrow> 'a go_value \<Rightarrow> (string \<Rightarrow> 'a go_value option)" where
  "engage_data c distinctID op properties =
     (let data = Map.empty;
          data = data(''$token'' \<mapsto> VString (Token c));
          data = data(''$distinct_id'' \<mapsto> VString distinctID);
          data = (if length (OverrideIPAddress c) > 0
                  then data(''$ip'' \<mapsto> VString (OverrideIPAddress c)) else data);
          data = data(op \<mapsto> properties)
      in data)"

text \<open>
  \<^verbatim>\<open>func (m *Mixpanel) engage(distinctID string, op string, properties interface{}) error\<close>.
\<close>

definition engage ::
  "('a, 'r) env \<Rightarrow> string \<Rightarrow> string \<Rightarrow> 'a go_value \<Rightarrow> world \<Rightarrow>
     error option outcome \<times> world" where
  "engage e distinctID op properties w =
     (case mixpanel w of
        None \<Rightarrow> (Panic NilPointerDereference, w)
      | Some c \<Rightarrow>
          (let data = engage_data c distinctID op properties;
               ((response, err), w') = get e (BaseURL c @ ''/engage/'') data w
           in (Return (case err of
                         Some x \<Rightarrow> Some x
                       | None \<Rightarrow>
                           if response \<noteq> ''1'' then Some ErrUnexpectedEngageResponse
                           else None),
               w')))"

definition ProfileSet ::
  "('a, 'r) env \<Rightarrow> string \<Rightarrow> (string \<Rightarrow> 'a go_value option) option \<Rightarrow> world \<Rightarrow>
     error option outcome \<times> world" where
  "ProfileSet e distinctID properties w = engage e distinctID ''$set'' (VMap properties) w"

definition ProfileSetOnce ::
  "('a, 'r) env \<Rightarrow> string \<Rightarrow> (string \<Rightarrow> 'a go_value option) option \<Rightarrow> world \<Rightarrow>
     error option outcome \<times> world" where
  "ProfileSetOnce e distinctID properties w =
     engage e distinctID ''$set_once'' (VMap properties) w"

definition ProfileAdd ::
  "('a, 'r) env \<Rightarrow> string \<Rightarrow> (string \<Rightarrow> int option) option \<Rightarrow> world \<Rightarrow>
     error option outcome \<times> world" where
  "ProfileAdd e distinctID properties w = engage e distinctID ''$add'' (VIntMap properties) w"

definition ProfileAppend ::
  "('a, 'r) env \<Rightarrow> string \<Rightarrow> (string \<Rightarrow> 'a go_value option) option \<Rightarrow> world \<Rightarrow>
     error option outcome \<times> world" where
  "ProfileAppend e distinctID properties w =
     engage e distinctID ''$append'' (VMap properties) w"

definition ProfileUnion ::
  "('a, 'r) env \<Rightarrow> string \<Rightarrow> (string \<Rightarrow> 'a go_value option) option \<Rightarrow> world \<Rightarrow>
     error option outcome \<times> world" where
  "ProfileUnion e distinctID properties w =
     engage e distinctID ''$union'' (VMap properties) w"

definition ProfileUnset ::
  "('a, 'r) env \<Rightarrow> string \<Rightarrow> string list option \<Rightarrow> world \<Rightarrow>
     error option outcome \<times> world" where
  "ProfileUnset e distinctID properties w =
     engage e distinctID ''$unset'' (VStrings properties) w"

definition ProfileDelete ::
  "('a, 'r) env \<Rightarrow> string \<Rightarrow> world \<Rightarrow> error option outcome \<times> world" where
  "ProfileDelete e distinctID w = engage e distinctID ''$delete'' (VString '''') w"

subsection \<open>Alias\<close>

text \<open>
  \<^verbatim>\<open>ProfileCreateAliasDistinctIdToAlias(oldID, newID string) error\<close>. The map is a
  fresh literal that no caller sees, so only the error and the world are returned.
\<close>

definition ProfileCreateAliasDistinctIdToAlias ::
  "('a, 'r) env \<Rightarrow> string \<Rightarrow> string \<Rightarrow> world \<Rightarrow> error option outcome \<times> world" where
  "ProfileCreateAliasDistinctIdToAlias e oldID newID w =
     (let (r, properties', w') =
            Track e ''$create_alias''
              (Some [''distinct_id'' \<mapsto> VString oldID, ''alias'' \<mapsto> VString newID]) w
      in (r, w'))"

subsection \<open>Vocabulary of the specification\<close>

text \<open>The operation keys of the table of profile operations.\<close>

definition operation_keys :: "string list" where
  "operation_keys =
     [''$set'', ''$set_once'', ''$add'', ''$append'', ''$union'', ''$unset'', ''$delete'']"

text \<open>
  A profile payload for a client, a distinct ID, an operation key and a value: the token,
  the distinct ID, the value under the key, and no other operation key.
\<close>

definition profile_payload ::
  "Mixpanel \<Rightarrow> string \<Rightarrow> string \<Rightarrow> 'a go_value \<Rightarrow> (string \<Rightarrow> 'a go_value option) \<Rightarrow> bool" where
  "profile_payload c distinctID key v data \<longleftrightarrow>
     data ''$token'' = Some (VString (Token c)) \<and>
     data ''$distinct_id'' = Some (VString distinctID) \<and>
     data key = Some v \<and>
     filter (\<lambda>k. data k \<noteq> None) operation_keys = [key]"

text \<open>
  The seven public profile methods, with the operation key and the value each is
  specified to send: \<open>profile_call e distinctID w key v r\<close> says that \<open>r\<close> is what the
  method for \<open>key\<close> returns when called with \<open>distinctID\<close> and the value \<open>v\<close> in world
  \<open>w\<close>.
\<close>

inductive profile_call ::
  "('a, 'r) env \<Rightarrow> string \<Rightarrow> world \<Rightarrow> string \<Rightarrow> 'a go_value \<Rightarrow>
     error option outcome \<times> world \<Rightarrow> bool"
  for e :: "('a, 'r) env" and distinctID :: string and w :: world where
    call_ProfileSet:
      "profile_call e distinctID w ''$set'' (VMap properties)
         (ProfileSet e distinctID properties w)"
  | call_ProfileSetOnce:
      "profile_call e distinctID w ''$set_once'' (VMap properties)
         (ProfileSetOnce e distinctID properties w)"
  | call_ProfileAdd:
      "profile_call e distinctID w ''$add'' (VIntMap amounts)
         (ProfileAdd e distinctID amounts w)"
  | call_ProfileAppend:
      "profile_call e distinctID w ''$append'' (VMap properties)
         (ProfileAppend e distinctID properties w)"
  | call_ProfileUnion:
      "profile_call e distinctID w ''$union'' (VMap properties)
         (ProfileUnion e distinctID properties w)"
  | call_ProfileUnset:
      "profile_call e distinctID w ''$unset'' (VStrings names)
         (ProfileUnset e distinctID names w)"
  | call_ProfileDelete:
      "profile_call e distinctID w ''$delete'' (VString '''')
         (ProfileDelete e distinctID w)"

subsection \<open>Test doubles\<close>

text \<open>
  A stubbed standard library whose transport answers every request with the given body,
  and a client in a fresh world, for the examples below.
\<close>

definition stub_env :: "string \<Rightarrow> (unit, string) env" where
  "stub_env body =
     \<lparr>json_Marshal = (\<lambda>v. Inr ''{}''),
      base64_EncodeToString = (\<lambda>bytes. ''e30=''),
      http_Get = (\<lambda>url. Inr body),
      ioutil_ReadAll = (\<lambda>res. (res, None))\<rparr>"

definition example_client :: Mixpanel where
  "example_client = \<lparr>Token = ''t0k3n'', BaseURL = BASE_URL, OverrideIPAddress = ''''\<rparr>"

definition example_world :: world where
  "example_world = \<lparr>mixpanel = Some example_client, trace = []\<rparr>"

section \<open>Basic facts\<close>

lemmas profile_defs =
  ProfileSet_def ProfileSetOnce_def ProfileAdd_def ProfileAppend_def ProfileUnion_def
  ProfileUnset_def ProfileDelete_def

lemma get_mixpanel: "mixpanel (snd (get e url data w)) = mixpanel w"
  by (simp add: get_def Let_def split: sum.splits)

lemma get_cases:
  "get e url data w =
     (case json_Marshal e (VMap (Some data)) of
        Inl err \<Rightarrow> (('''', Some err), w)
      | Inr js \<Rightarrow>
          (case http_Get e (url @ ''?data='' @ base64_EncodeToString e js) of
             Inl err \<Rightarrow>
               (('''', Some err),
                w\<lparr>trace := trace w @ [HttpGet (url @ ''?data='' @ base64_EncodeToString e js)]\<rparr>)
           | Inr res \<Rightarrow>
               (ioutil_ReadAll e res,
                w\<lparr>trace := trace w @
                   [HttpGet (url @ ''?data='' @ base64_EncodeToString e js), BodyRead, BodyClose]\<rparr>)))"
  by (simp add: get_def Let_def split: sum.splits)

lemma Track_data_eq:
  "Track_data c event p =
     ([''event'' \<mapsto> VString event,
       ''properties'' \<mapsto> VMap (Some (p(''token'' \<mapsto> VString (Token c))))],
      p(''token'' \<mapsto> VString (Token c)))"
  by (simp add: Track_data_def Let_def)

lemma Track_unfold:
  assumes "mixpanel w = Some c"
  shows "Track e event (Some p) w =
     (Return (case snd (fst (get e (BaseURL c @ ''/track/'') (fst (Track_data c event p)) w)) of
                Some x \<Rightarrow> Some x
              | None \<Rightarrow>
                  if fst (fst (get e (BaseURL c @ ''/track/'') (fst (Track_data c event p)) w)) \<noteq> ''1''
                  then Some ErrUnexpectedTrackResponse else None),
      Some (snd (Track_data c event p)),
      snd (get e (BaseURL c @ ''/track/'') (fst (Track_data c event p)) w))"
  using assms by (simp add: Track_def Let_def split: prod.splits)

lemma engage_unfold:
  assumes "mixpanel w = Some c"
  shows "engage e d op v w =
     (Return (case snd (fst (get e (BaseURL c @ ''/engage/'') (engage_data c d op v) w)) of
                Some x \<Rightarrow> Some x
              | None \<Rightarrow>
                  if fst (fst (get e (BaseURL c @ ''/engage/'') (engage_data c d op v) w)) \<noteq> ''1''
                  then Some ErrUnexpectedEngageResponse else None),
      snd (get e (BaseURL c @ ''/engage/'') (engage_data c d op v) w))"
  using assms by (simp add: engage_def Let_def split: prod.splits)

lemma engage_answer:
  assumes "mixpanel w = Some c"
    and "fst (get e (BaseURL c @ ''/engage/'') (engage_data c d op v) w) = (body, None)"
  shows "fst (engage e d op v w) =
           Return (if body = ''1'' then None else Some ErrUnexpectedEngageResponse)"
  using assms by (simp add: engage_unfold)

lemma engage_failure:
  assumes "mixpanel w = Some c"
    and "snd (fst (get e (BaseURL c @ ''/engage/'') (engage_data c d op v) w)) = Some err"
  shows "fst (engage e d op v w) = Return (Some err)"
  using assms by (simp add: engage_unfold)

lemma engage_mixpanel: "mixpanel (snd (engage e d op v w)) = mixpanel w"
proof (cases "mixpanel w")
  case None
  then show ?thesis by (simp add: engage_def)
next
  case (Some c)
  then show ?thesis by (simp add: engage_unfold get_mixpanel)
qed

lemma Track_mixpanel: "mixpanel (snd (snd (Track e event properties w))) = mixpanel w"
proof (cases "mixpanel w")
  case None
  then show ?thesis by (simp add: Track_def)
next
  case (Some c)
  show ?thesis
  proof (cases properties)
    case None
    with Some show ?thesis by (simp add: Track_def)
  next
    case (Some p)
    with \<open>mixpanel w = Some c\<close> show ?thesis by (simp add: Track_unfold get_mixpanel)
  qed
qed

lemma engage_data_dom:
  "dom (engage_data c d op v) =
     {''$token'', ''$distinct_id'', op} \<union> (if OverrideIPAddress c = '''' then {} else {''$ip''})"
  by (auto simp add: engage_data_def Let_def)

lemma engage_data_ip:
  assumes "op \<noteq> ''$ip''"
  shows "engage_data c d op v ''$ip'' =
           (if OverrideIPAddress c = '''' then None else Some (VString (OverrideIPAddress c)))"
  using assms by (simp add: engage_data_def Let_def)

lemma engage_data_payload:
  assumes "op \<in> set operation_keys"
  shows "profile_payload c d op v (engage_data c d op v)"
proof -
  from assms have
    "op = ''$set'' \<or> op = ''$set_once'' \<or> op = ''$add'' \<or> op = ''$append'' \<or>
     op = ''$union'' \<or> op = ''$unset'' \<or> op = ''$delete''"
    by (simp add: operation_keys_def)
  then show ?thesis
    by (elim disjE)
       (simp_all add: profile_payload_def engage_data_def operation_keys_def Let_def)
qed

lemma profile_call_engage:
  assumes "profile_call e d w key v r"
  shows "r = engage e d key v w \<and> key \<in> set operation_keys"
  using assms by cases (simp_all add: profile_defs operation_keys_def)

lemma get_trace_prefix:
  assumes "json_Marshal e (VMap (Some data)) = Inr js"
  shows "\<exists>rest. trace (snd (get e url data w)) =
           trace w @ HttpGet (url @ ''?data='' @ base64_EncodeToString e js) # rest"
  using assms by (simp add: get_cases split: sum.splits)

lemma alias_unfold:
  "ProfileCreateAliasDistinctIdToAlias e oldID newID w =
     (fst (Track e ''$create_alias''
             (Some [''distinct_id'' \<mapsto> VString oldID, ''alias'' \<mapsto> VString newID]) w),
      snd (snd (Track e ''$create_alias''
             (Some [''distinct_id'' \<mapsto> VString oldID, ''alias'' \<mapsto> VString newID]) w)))"
  by (simp add: ProfileCreateAliasDistinctIdToAlias_def split: prod.splits)

lemma get_success:
  assumes "json_Marshal e (VMap (Some data)) = Inr js"
    and "http_Get e (url @ ''?data='' @ base64_EncodeToString e js) = Inr res"
  shows "get e url data w =
       (ioutil_ReadAll e res,
        w\<lparr>trace := trace w @
           [HttpGet (url @ ''?data='' @ base64_EncodeToString e js), BodyRead, BodyClose]\<rparr>)"
  using assms by (simp add: get_cases)

section \<open>Construction\<close>

text \<open>
  C8. A client built from the token alone has that token and the default host
  \<^verbatim>\<open>https://api.mixpanel.com\<close> as base URL; built with a second argument, it has that
  argument as base URL (further arguments are ignored). This holds for every token, empty
  or not.
\<close>

theorem NewMixpanelClient_fields:
  "NewMixpanelClient [token] =
     Some \<lparr>Token = token, BaseURL = ''https://api.mixpanel.com'', OverrideIPAddress = ''''\<rparr>
   \<and> NewMixpanelClient (token # baseURL # others) =
     Some \<lparr>Token = token, BaseURL = baseURL, OverrideIPAddress = ''''\<rparr>"
  by (simp add: NewMixpanelClient_def BASE_URL_def)

section \<open>The response body decides the error\<close>

text \<open>
  C1. Take a call of \<^verbatim>\<open>Track\<close> or of a profile method on a client, and suppose the shared
  request routine returns the body \<open>body\<close> and no error for the envelope of that call.
  Then the call returns no error if \<open>body\<close> is the string \<^verbatim>\<open>1\<close>; for every other body,
  the empty one and \<^verbatim>\<open>0\<close> included, \<^verbatim>\<open>Track\<close> returns
  \<^verbatim>\<open>ErrUnexpectedTrackResponse\<close> and a profile method returns
  \<^verbatim>\<open>ErrUnexpectedEngageResponse\<close>.
\<close>

theorem response_body_decides_error:
  assumes "mixpanel w = Some c"
  shows
    "(fst (get e (BaseURL c @ ''/track/'') (fst (Track_data c event p)) w) = (body, None) \<longrightarrow>
        fst (Track e event (Some p) w) =
          Return (if body = ''1'' then None else Some ErrUnexpectedTrackResponse))
     \<and> (profile_call e d w key v r \<and>
        fst (get e (BaseURL c @ ''/engage/'') (engage_data c d key v) w) = (body, None) \<longrightarrow>
        fst r = Return (if body = ''1'' then None else Some ErrUnexpectedEngageResponse))"
proof (intro conjI impI)
  assume "fst (get e (BaseURL c @ ''/track/'') (fst (Track_data c event p)) w) = (body, None)"
  with assms show "fst (Track e event (Some p) w) =
      Return (if body = ''1'' then None else Some ErrUnexpectedTrackResponse)"
    by (simp add: Track_unfold)
next
  assume a: "profile_call e d w key v r \<and>
    fst (get e (BaseURL c @ ''/engage/'') (engage_data c d key v) w) = (body, None)"
  then have "r = engage e d key v w" by (simp add: profile_call_engage)
  with a assms show "fst r = Return (if body = ''1'' then None else Some ErrUnexpectedEngageResponse)"
    by (simp add: engage_answer)
qed

text \<open>
  The stubbed transport with the bodies \<^verbatim>\<open>1\<close>, \<^verbatim>\<open>0\<close> and the empty body, for
  \<^verbatim>\<open>Track\<close>, \<^verbatim>\<open>ProfileDelete\<close> and \<^verbatim>\<open>ProfileUnset\<close>.
\<close>

theorem response_body_decides_error_witness:
  "mixpanel example_world = Some example_client
   \<and> fst (get (stub_env ''1'') (BaseURL example_client @ ''/track/'')
        (fst (Track_data example_client ''Signed Up'' Map.empty)) example_world) = (''1'', None)
   \<and> fst (Track (stub_env ''1'') ''Signed Up'' (Some Map.empty) example_world) = Return None
   \<and> fst (Track (stub_env ''0'') ''Signed Up'' (Some Map.empty) example_world) =
        Return (Some ErrUnexpectedTrackResponse)
   \<and> fst (Track (stub_env '''') ''Signed Up'' (Some Map.empty) example_world) =
        Return (Some ErrUnexpectedTrackResponse)
   \<and> profile_call (stub_env ''1'') ''13793'' example_world
        ''$delete'' (VString '''') (ProfileDelete (stub_env ''1'') ''13793'' example_world)
   \<and> fst (ProfileDelete (stub_env ''1'') ''13793'' example_world) = Return None
   \<and> fst (ProfileDelete (stub_env ''0'') ''13793'' example_world) =
        Return (Some ErrUnexpectedEngageResponse)
   \<and> fst (ProfileUnset (stub_env '''') ''13793'' (Some [''Days Purchased'']) example_world) =
        Return (Some ErrUnexpectedEngageResponse)"
  using
    call_ProfileDelete [of "stub_env ''1''" "''13793''" example_world]
    call_ProfileDelete [of "stub_env ''0''" "''13793''" example_world]
    call_ProfileUnset [of "stub_env ''''" "''13793''" example_world "Some [''Days Purchased'']"]
    response_body_decides_error
      [where w = example_world and c = example_client
         and e = "stub_env ''1''" and body = "''1''"
         and event = "''Signed Up''" and p = Map.empty
         and d = "''13793''" and key = "''$delete''" and v = "VString ''''"
         and r = "ProfileDelete (stub_env ''1'') ''13793'' example_world"]
    response_body_decides_error
      [where w = example_world and c = example_client
         and e = "stub_env ''0''" and body = "''0''"
         and event = "''Signed Up''" and p = Map.empty
         and d = "''13793''" and key = "''$delete''" and v = "VString ''''"
         and r = "ProfileDelete (stub_env ''0'') ''13793'' example_world"]
    response_body_decides_error
      [where w = example_world and c = example_client
         and e = "stub_env ''''" and body = "''''"
         and event = "''Signed Up''" and p = Map.empty
         and d = "''13793''" and key = "''$unset''" and v = "VStrings (Some [''Days Purchased''])"
         and r = "ProfileUnset (stub_env '''') ''13793'' (Some [''Days Purchased'']) example_world"]
  by (simp add: example_world_def get_def stub_env_def)

section \<open>The envelope of Track\<close>

text \<open>
  C2. A call \<^verbatim>\<open>Track(event, properties)\<close> on a client, with a map \<open>p\<close> for
  \<^verbatim>\<open>properties\<close>, leaves the caller's map as \<open>p\<close> with the key \<^verbatim>\<open>token\<close> set to the
  client's token. The envelope has exactly the keys \<^verbatim>\<open>event\<close>, holding the event
  argument, and \<^verbatim>\<open>properties\<close>, holding that map with the token. It is this envelope that
  goes to the request routine with the client's base URL followed by \<^verbatim>\<open>/track/\<close>: when
  it serialises to \<open>js\<close>, the request fetched is the base URL followed by
  \<^verbatim>\<open>/track/?data=\<close> and the base64 text of \<open>js\<close>: the \<^verbatim>\<open>data\<close> parameter is
  the base64 encoding of the JSON serialisation of this envelope, which is what decoding
  it from base64 and then from JSON recovers.
\<close>

theorem Track_injects_token:
  assumes "mixpanel w = Some c"
  shows
    "fst (snd (Track e event (Some p) w)) = Some (p(''token'' \<mapsto> VString (Token c)))
     \<and> (p(''token'' \<mapsto> VString (Token c))) ''token'' = Some (VString (Token c))
     \<and> fst (Track_data c event p) =
         [''event'' \<mapsto> VString event,
          ''properties'' \<mapsto> VMap (Some (p(''token'' \<mapsto> VString (Token c))))]
     \<and> dom (fst (Track_data c event p)) = {''event'', ''properties''}
     \<and> snd (snd (Track e event (Some p) w)) =
         snd (get e (BaseURL c @ ''/track/'') (fst (Track_data c event p)) w)
     \<and> (\<forall>js. json_Marshal e (VMap (Some (fst (Track_data c event p)))) = Inr js \<longrightarrow>
          (\<exists>rest. trace (snd (snd (Track e event (Some p) w))) =
             trace w @ HttpGet (BaseURL c @ ''/track/?data='' @ base64_EncodeToString e js) # rest))"
proof (intro conjI allI impI)
  show "fst (snd (Track e event (Some p) w)) = Some (p(''token'' \<mapsto> VString (Token c)))"
    using assms by (simp add: Track_unfold Track_data_eq)
  show "(p(''token'' \<mapsto> VString (Token c))) ''token'' = Some (VString (Token c))"
    by simp
  show "fst (Track_data c event p) =
         [''event'' \<mapsto> VString event,
          ''properties'' \<mapsto> VMap (Some (p(''token'' \<mapsto> VString (Token c))))]"
    by (simp add: Track_data_eq)
  show "dom (fst (Track_data c event p)) = {''event'', ''properties''}"
    by (auto simp add: Track_data_eq)
  show "snd (snd (Track e event (Some p) w)) =
         snd (get e (BaseURL c @ ''/track/'') (fst (Track_data c event p)) w)"
    using assms by (simp add: Track_unfold)
next
  fix js
  assume "json_Marshal e (VMap (Some (fst (Track_data c event p)))) = Inr js"
  from get_trace_prefix [OF this, of "BaseURL c @ ''/track/''" w]
  show "\<exists>rest. trace (snd (snd (Track e event (Some p) w))) =
             trace w @ HttpGet (BaseURL c @ ''/track/?data='' @ base64_EncodeToString e js) # rest"
    using assms by (simp add: Track_unfold)
qed

text \<open>A call with one property, against the stubbed transport.\<close>

theorem Track_injects_token_witness:
  "mixpanel example_world = Some example_client
   \<and> fst (snd (Track (stub_env ''1'') ''Signed Up''
        (Some [''plan'' \<mapsto> VString ''pro'']) example_world)) =
       Some [''plan'' \<mapsto> VString ''pro'', ''token'' \<mapsto> VString ''t0k3n'']
   \<and> json_Marshal (stub_env ''1'')
        (VMap (Some (fst (Track_data example_client ''Signed Up'' [''plan'' \<mapsto> VString ''pro''])))) =
       Inr ''{}''
   \<and> (\<exists>rest. trace (snd (snd (Track (stub_env ''1'') ''Signed Up''
        (Some [''plan'' \<mapsto> VString ''pro'']) example_world))) =
       HttpGet ''https://api.mixpanel.com/track/?data=e30='' # rest)"
  using
    Track_injects_token
      [where w = example_world and c = example_client and e = "stub_env ''1''"
         and event = "''Signed Up''" and p = "[''plan'' \<mapsto> VString ''pro'']"]
  by (simp add: example_world_def example_client_def BASE_URL_def stub_env_def get_def)

section \<open>The envelope of the profile operations\<close>

text \<open>
  C3. Every public profile method (\<^verbatim>\<open>ProfileSet\<close>, \<^verbatim>\<open>ProfileSetOnce\<close>,
  \<^verbatim>\<open>ProfileAdd\<close>, \<^verbatim>\<open>ProfileAppend\<close>, \<^verbatim>\<open>ProfileUnion\<close>, \<^verbatim>\<open>ProfileUnset\<close>,
  \<^verbatim>\<open>ProfileDelete\<close>), called on a client with a distinct ID and its value, sends an
  envelope that holds the client's token under \<^verbatim>\<open>$token\<close>, the distinct ID under
  \<^verbatim>\<open>$distinct_id\<close>, and the value under the method's own operation key (\<^verbatim>\<open>$set\<close>,
  \<^verbatim>\<open>$set_once\<close>, \<^verbatim>\<open>$add\<close>, \<^verbatim>\<open>$append\<close>, \<^verbatim>\<open>$union\<close>, \<^verbatim>\<open>$unset\<close>,
  \<^verbatim>\<open>$delete\<close>; the empty string for \<^verbatim>\<open>ProfileDelete\<close>), and no other operation key.
  Its only other key can be \<^verbatim>\<open>$ip\<close>. The envelope goes to the request routine with the
  base URL followed by \<^verbatim>\<open>/engage/\<close>, and the \<^verbatim>\<open>data\<close> parameter of the request is the
  base64 text of its JSON serialisation.
\<close>

theorem profile_envelope:
  assumes "mixpanel w = Some c" and "profile_call e d w key v r"
  shows
    "key \<in> set operation_keys
     \<and> profile_payload c d key v (engage_data c d key v)
     \<and> dom (engage_data c d key v) =
         {''$token'', ''$distinct_id'', key} \<union>
         (if OverrideIPAddress c = '''' then {} else {''$ip''})
     \<and> snd r = snd (get e (BaseURL c @ ''/engage/'') (engage_data c d key v) w)
     \<and> (\<forall>js. json_Marshal e (VMap (Some (engage_data c d key v))) = Inr js \<longrightarrow>
          (\<exists>rest. trace (snd r) =
             trace w @ HttpGet (BaseURL c @ ''/engage/?data='' @ base64_EncodeToString e js) # rest))"
proof -
  from assms(2) have r: "r = engage e d key v w" and key: "key \<in> set operation_keys"
    by (simp_all add: profile_call_engage)
  have sent: "snd r = snd (get e (BaseURL c @ ''/engage/'') (engage_data c d key v) w)"
    using assms(1) r by (simp add: engage_unfold)
  have "\<exists>rest. trace (snd r) =
          trace w @ HttpGet (BaseURL c @ ''/engage/?data='' @ base64_EncodeToString e js) # rest"
    if "json_Marshal e (VMap (Some (engage_data c d key v))) = Inr js" for js
    using get_trace_prefix [OF that, of "BaseURL c @ ''/engage/''" w] sent by simp
  with key sent show ?thesis
    by (simp add: engage_data_payload engage_data_dom)
qed

text \<open>
  The seven methods on the example client, each with the envelope it hands to the request
  routine; \<^verbatim>\<open>ProfileAdd\<close> with two amounts, one of them negative.
\<close>

theorem profile_envelope_witness:
  "mixpanel example_world = Some example_client
   \<and> snd (ProfileSet (stub_env ''1'') ''13793'' (Some [''Plan'' \<mapsto> VString ''Pro''])
          example_world) =
       snd (get (stub_env ''1'') ''https://api.mixpanel.com/engage/''
              [''$token'' \<mapsto> VString ''t0k3n'', ''$distinct_id'' \<mapsto> VString ''13793'',
               ''$set'' \<mapsto> VMap (Some [''Plan'' \<mapsto> VString ''Pro''])] example_world)
   \<and> snd (ProfileSetOnce (stub_env ''1'') ''13793'' (Some [''Plan'' \<mapsto> VString ''Pro''])
          example_world) =
       snd (get (stub_env ''1'') ''https://api.mixpanel.com/engage/''
              [''$token'' \<mapsto> VString ''t0k3n'', ''$distinct_id'' \<mapsto> VString ''13793'',
               ''$set_once'' \<mapsto> VMap (Some [''Plan'' \<mapsto> VString ''Pro''])] example_world)
   \<and> snd (ProfileAdd (stub_env ''1'') ''13793''
          (Some [''items_created'' \<mapsto> 10, ''invites_sent'' \<mapsto> - 1]) example_world) =
       snd (get (stub_env ''1'') ''https://api.mixpanel.com/engage/''
              [''$token'' \<mapsto> VString ''t0k3n'', ''$distinct_id'' \<mapsto> VString ''13793'',
               ''$add'' \<mapsto> VIntMap (Some [''items_created'' \<mapsto> 10, ''invites_sent'' \<mapsto> - 1])]
              example_world)
   \<and> snd (ProfileAppend (stub_env ''1'') ''13793''
          (Some [''level_ups'' \<mapsto> VString ''sword obtained'']) example_world) =
       snd (get (stub_env ''1'') ''https://api.mixpanel.com/engage/''
              [''$token'' \<mapsto> VString ''t0k3n'', ''$distinct_id'' \<mapsto> VString ''13793'',
               ''$append'' \<mapsto> VMap (Some [''level_ups'' \<mapsto> VString ''sword obtained''])]
              example_world)
   \<and> snd (ProfileUnion (stub_env ''1'') ''13793''
          (Some [''items_purchased'' \<mapsto> VStrings (Some [''socks'', ''shirts''])])
          example_world) =
       snd (get (stub_env ''1'') ''https://api.mixpanel.com/engage/''
              [''$token'' \<mapsto> VString ''t0k3n'', ''$distinct_id'' \<mapsto> VString ''13793'',
               ''$union'' \<mapsto>
                 VMap (Some [''items_purchased'' \<mapsto> VStrings (Some [''socks'', ''shirts''])])]
              example_world)
   \<and> snd (ProfileUnset (stub_env ''1'') ''13793'' (Some [''Days Purchased'']) example_world) =
       snd (get (stub_env ''1'') ''https://api.mixpanel.com/engage/''
              [''$token'' \<mapsto> VString ''t0k3n'', ''$distinct_id'' \<mapsto> VString ''13793'',
               ''$unset'' \<mapsto> VStrings (Some [''Days Purchased''])] example_world)
   \<and> snd (ProfileDelete (stub_env ''1'') ''13793'' example_world) =
       snd (get (stub_env ''1'') ''https://api.mixpanel.com/engage/''
              [''$token'' \<mapsto> VString ''t0k3n'', ''$distinct_id'' \<mapsto> VString ''13793'',
               ''$delete'' \<mapsto> VString ''''] example_world)
   \<and> profile_payload example_client ''13793'' ''$add''
        (VIntMap (Some [''items_created'' \<mapsto> 10, ''invites_sent'' \<mapsto> - 1]) :: unit go_value)
        (engage_data example_client ''13793'' ''$add''
           (VIntMap (Some [''items_created'' \<mapsto> 10, ''invites_sent'' \<mapsto> - 1])))
   \<and> dom (engage_data example_client ''13793'' ''$add''
           (VIntMap (Some [''items_created'' \<mapsto> 10, ''invites_sent'' \<mapsto> - 1])) ::
             string \<Rightarrow> unit go_value option) =
       {''$token'', ''$distinct_id'', ''$add''}
   \<and> (\<exists>rest. trace (snd (ProfileDelete (stub_env ''1'') ''13793'' example_world)) =
         HttpGet ''https://api.mixpanel.com/engage/?data=e30='' # rest)"
proof -
  have c: "mixpanel example_world = Some example_client"
    by (simp add: example_world_def)
  note envelope = profile_envelope [OF c]
  note sent = envelope [THEN conjunct2, THEN conjunct2, THEN conjunct2, THEN conjunct1]
  have payload: "profile_payload example_client ''13793'' ''$add''
        (VIntMap (Some [''items_created'' \<mapsto> 10, ''invites_sent'' \<mapsto> - 1]) :: unit go_value)
        (engage_data example_client ''13793'' ''$add''
           (VIntMap (Some [''items_created'' \<mapsto> 10, ''invites_sent'' \<mapsto> - 1])))"
    using envelope [OF call_ProfileAdd [of "stub_env ''1''"], THEN conjunct2, THEN conjunct1]
    by simp
  have keys: "dom (engage_data example_client ''13793'' ''$add''
           (VIntMap (Some [''items_created'' \<mapsto> 10, ''invites_sent'' \<mapsto> - 1])) ::
             string \<Rightarrow> unit go_value option) =
       {''$token'', ''$distinct_id'', ''$add''}"
    using envelope [OF call_ProfileAdd [of "stub_env ''1''"],
        THEN conjunct2, THEN conjunct2, THEN conjunct1,
        of "''13793''" "Some [''items_created'' \<mapsto> 10, ''invites_sent'' \<mapsto> - 1]"]
    by (simp add: example_client_def)
  have request: "\<exists>rest. trace (snd (ProfileDelete (stub_env ''1'') ''13793'' example_world)) =
         HttpGet ''https://api.mixpanel.com/engage/?data=e30='' # rest"
    using envelope [OF call_ProfileDelete [of "stub_env ''1''" "''13793''"],
        THEN conjunct2, THEN conjunct2, THEN conjunct2, THEN conjunct2]
    by (simp add: example_world_def example_client_def BASE_URL_def stub_env_def)
  from c payload keys request show ?thesis
    using
      sent [OF call_ProfileSet [of "stub_env ''1''"]]
      sent [OF call_ProfileSetOnce [of "stub_env ''1''"]]
      sent [OF call_ProfileAdd [of "stub_env ''1''"]]
      sent [OF call_ProfileAppend [of "stub_env ''1''"]]
      sent [OF call_ProfileUnion [of "stub_env ''1''"]]
      sent [OF call_ProfileUnset [of "stub_env ''1''"]]
      sent [OF call_ProfileDelete [of "stub_env ''1''"]]
    by (simp add: example_client_def BASE_URL_def engage_data_def)
qed

text \<open>
  C4. For every public profile method called on a client: when the client's
  \<^verbatim>\<open>OverrideIPAddress\<close> is set (not empty), the envelope sent holds it under \<^verbatim>\<open>$ip\<close>;
  when it is not set, the envelope has no key \<^verbatim>\<open>$ip\<close>.
\<close>

theorem profile_override_ip:
  assumes "mixpanel w = Some c" and "profile_call e d w key v r"
  shows
    "snd r = snd (get e (BaseURL c @ ''/engage/'') (engage_data c d key v) w)
     \<and> (OverrideIPAddress c \<noteq> '''' \<longrightarrow>
          engage_data c d key v ''$ip'' = Some (VString (OverrideIPAddress c)))
     \<and> (OverrideIPAddress c = '''' \<longrightarrow> ''$ip'' \<notin> dom (engage_data c d key v))"
proof -
  from assms(2) have r: "r = engage e d key v w" and key: "key \<in> set operation_keys"
    by (simp_all add: profile_call_engage)
  from key have "key \<noteq> ''$ip''"
    by (auto simp add: operation_keys_def)
  then show ?thesis
    using assms(1) r by (simp add: engage_unfold engage_data_ip domIff)
qed

text \<open>
  \<^verbatim>\<open>ProfileSet\<close> on a client without an override address, and \<^verbatim>\<open>ProfileDelete\<close> on
  the same client with the address \<^verbatim>\<open>203.0.113.7\<close>.
\<close>

theorem profile_override_ip_witness:
  "mixpanel example_world = Some example_client
   \<and> OverrideIPAddress example_client = ''''
   \<and> profile_call (stub_env ''1'') ''13793'' example_world ''$set''
        (VMap (Some [''Plan'' \<mapsto> VString ''Pro'']))
        (ProfileSet (stub_env ''1'') ''13793'' (Some [''Plan'' \<mapsto> VString ''Pro''])
           example_world)
   \<and> ''$ip'' \<notin> dom (engage_data example_client ''13793'' ''$set''
        (VMap (Some [''Plan'' \<mapsto> VString ''Pro''])) :: string \<Rightarrow> unit go_value option)
   \<and> mixpanel (example_world\<lparr>mixpanel :=
        Some (example_client\<lparr>OverrideIPAddress := ''203.0.113.7''\<rparr>)\<rparr>) =
       Some (example_client\<lparr>OverrideIPAddress := ''203.0.113.7''\<rparr>)
   \<and> OverrideIPAddress (example_client\<lparr>OverrideIPAddress := ''203.0.113.7''\<rparr>) \<noteq> ''''
   \<and> profile_call (stub_env ''1'') ''13793''
        (example_world\<lparr>mixpanel :=
           Some (example_client\<lparr>OverrideIPAddress := ''203.0.113.7''\<rparr>)\<rparr>)
        ''$delete'' (VString '''')
        (ProfileDelete (stub_env ''1'') ''13793''
           (example_world\<lparr>mixpanel :=
              Some (example_client\<lparr>OverrideIPAddress := ''203.0.113.7''\<rparr>)\<rparr>))
   \<and> (engage_data (example_client\<lparr>OverrideIPAddress := ''203.0.113.7''\<rparr>) ''13793''
        ''$delete'' (VString '''') :: string \<Rightarrow> unit go_value option) ''$ip'' =
       Some (VString ''203.0.113.7'')"
  using
    call_ProfileSet [of "stub_env ''1''" "''13793''" example_world
      "Some [''Plan'' \<mapsto> VString ''Pro'']"]
    call_ProfileDelete [of "stub_env ''1''" "''13793''"
      "example_world\<lparr>mixpanel :=
         Some (example_client\<lparr>OverrideIPAddress := ''203.0.113.7''\<rparr>)\<rparr>"]
    profile_override_ip
      [where w = example_world and c = example_client and e = "stub_env ''1''"
         and d = "''13793''" and key = "''$set''"
         and v = "VMap (Some [''Plan'' \<mapsto> VString ''Pro''])"
         and r = "ProfileSet (stub_env ''1'') ''13793'' (Some [''Plan'' \<mapsto> VString ''Pro''])
                    example_world"]
    profile_override_ip
      [where w = "example_world\<lparr>mixpanel :=
                    Some (example_client\<lparr>OverrideIPAddress := ''203.0.113.7''\<rparr>)\<rparr>"
         and c = "example_client\<lparr>OverrideIPAddress := ''203.0.113.7''\<rparr>"
         and e = "stub_env ''1''"
         and d = "''13793''" and key = "''$delete''" and v = "VString ''''"
         and r = "ProfileDelete (stub_env ''1'') ''13793''
                    (example_world\<lparr>mixpanel :=
                       Some (example_client\<lparr>OverrideIPAddress := ''203.0.113.7''\<rparr>)\<rparr>)"]
  by (simp add: example_world_def example_client_def)

section \<open>Alias\<close>

text \<open>
  C5. For all strings \<open>oldID\<close> and \<open>newID\<close>, the alias method returns the error, and leaves
  the world, of \<^verbatim>\<open>Track\<close> called with the event \<^verbatim>\<open>$create_alias\<close> and the properties
  \<^verbatim>\<open>{distinct_id: oldID, alias: newID}\<close>; so for \<^verbatim>\<open>old1\<close> and \<^verbatim>\<open>new1\<close>. On a client
  the envelope it sends is the one of that \<^verbatim>\<open>Track\<close> call, with the token added.
\<close>

theorem alias_is_Track:
  "ProfileCreateAliasDistinctIdToAlias e oldID newID w =
     (fst (Track e ''$create_alias''
             (Some [''distinct_id'' \<mapsto> VString oldID, ''alias'' \<mapsto> VString newID]) w),
      snd (snd (Track e ''$create_alias''
             (Some [''distinct_id'' \<mapsto> VString oldID, ''alias'' \<mapsto> VString newID]) w)))
   \<and> ProfileCreateAliasDistinctIdToAlias e ''old1'' ''new1'' w =
     (fst (Track e ''$create_alias''
             (Some [''distinct_id'' \<mapsto> VString ''old1'', ''alias'' \<mapsto> VString ''new1'']) w),
      snd (snd (Track e ''$create_alias''
             (Some [''distinct_id'' \<mapsto> VString ''old1'', ''alias'' \<mapsto> VString ''new1'']) w)))
   \<and> (mixpanel w = Some c \<longrightarrow>
        snd (ProfileCreateAliasDistinctIdToAlias e oldID newID w) =
        snd (get e (BaseURL c @ ''/track/'')
               [''event'' \<mapsto> VString ''$create_alias'',
                ''properties'' \<mapsto>
                  VMap (Some [''distinct_id'' \<mapsto> VString oldID, ''alias'' \<mapsto> VString newID,
                              ''token'' \<mapsto> VString (Token c)])] w))"
  by (simp add: alias_unfold Track_unfold Track_data_eq)

theorem alias_is_Track_witness:
  "mixpanel example_world = Some example_client
   \<and> snd (ProfileCreateAliasDistinctIdToAlias (stub_env ''1'') ''old1'' ''new1'' example_world) =
       snd (get (stub_env ''1'') ''https://api.mixpanel.com/track/''
              [''event'' \<mapsto> VString ''$create_alias'',
               ''properties'' \<mapsto>
                 VMap (Some [''distinct_id'' \<mapsto> VString ''old1'', ''alias'' \<mapsto> VString ''new1'',
                             ''token'' \<mapsto> VString ''t0k3n''])] example_world)"
  using
    alias_is_Track
      [where w = example_world and c = example_client and e = "stub_env ''1''"
         and oldID = "''old1''" and newID = "''new1''", THEN conjunct2, THEN conjunct2]
  by (simp add: example_world_def example_client_def BASE_URL_def)

section \<open>The request routine\<close>

text \<open>
  C6. The shared routine serialises the envelope to JSON, encodes the bytes in base64,
  calls \<^verbatim>\<open>http.Get\<close> on the URL followed by \<^verbatim>\<open>?data=\<close> and the base64 text, reads the
  whole body and returns it as text, and closes the body. For \<^verbatim>\<open>Track\<close> the URL
  fetched is the base URL followed by \<^verbatim>\<open>/track/?data=\<close> and the base64 text of the
  serialised envelope, for every profile method the base URL followed by
  \<^verbatim>\<open>/engage/?data=\<close> and that text; the error returned comes from what was read.
\<close>

theorem request_routine:
  assumes "mixpanel w = Some c"
  shows
    "(json_Marshal e (VMap (Some data)) = Inr js \<and>
      http_Get e (url @ ''?data='' @ base64_EncodeToString e js) = Inr res \<longrightarrow>
        get e url data w =
          (ioutil_ReadAll e res,
           w\<lparr>trace := trace w @
              [HttpGet (url @ ''?data='' @ base64_EncodeToString e js), BodyRead, BodyClose]\<rparr>))
     \<and> (json_Marshal e (VMap (Some (fst (Track_data c event p)))) = Inr js \<and>
        http_Get e (BaseURL c @ ''/track/?data='' @ base64_EncodeToString e js) = Inr res \<longrightarrow>
          snd (snd (Track e event (Some p) w)) =
            w\<lparr>trace := trace w @
               [HttpGet (BaseURL c @ ''/track/?data='' @ base64_EncodeToString e js),
                BodyRead, BodyClose]\<rparr>
          \<and> fst (Track e event (Some p) w) =
            Return (case ioutil_ReadAll e res of
                      (body, Some err) \<Rightarrow> Some err
                    | (body, None) \<Rightarrow>
                        if body = ''1'' then None else Some ErrUnexpectedTrackResponse))
     \<and> (profile_call e d w key v r \<and>
        json_Marshal e (VMap (Some (engage_data c d key v))) = Inr js \<and>
        http_Get e (BaseURL c @ ''/engage/?data='' @ base64_EncodeToString e js) = Inr res \<longrightarrow>
          snd r =
            w\<lparr>trace := trace w @
               [HttpGet (BaseURL c @ ''/engage/?data='' @ base64_EncodeToString e js),
                BodyRead, BodyClose]\<rparr>
          \<and> fst r =
            Return (case ioutil_ReadAll e res of
                      (body, Some err) \<Rightarrow> Some err
                    | (body, None) \<Rightarrow>
                        if body = ''1'' then None else Some ErrUnexpectedEngageResponse))"
proof (intro conjI impI)
  assume "json_Marshal e (VMap (Some data)) = Inr js \<and>
      http_Get e (url @ ''?data='' @ base64_EncodeToString e js) = Inr res"
  then show "get e url data w =
          (ioutil_ReadAll e res,
           w\<lparr>trace := trace w @
              [HttpGet (url @ ''?data='' @ base64_EncodeToString e js), BodyRead, BodyClose]\<rparr>)"
    by (simp add: get_success)
next
  assume a: "json_Marshal e (VMap (Some (fst (Track_data c event p)))) = Inr js \<and>
        http_Get e (BaseURL c @ ''/track/?data='' @ base64_EncodeToString e js) = Inr res"
  then have g: "get e (BaseURL c @ ''/track/'') (fst (Track_data c event p)) w =
      (ioutil_ReadAll e res,
       w\<lparr>trace := trace w @
          [HttpGet (BaseURL c @ ''/track/?data='' @ base64_EncodeToString e js),
           BodyRead, BodyClose]\<rparr>)"
    using get_success [of e "fst (Track_data c event p)" js "BaseURL c @ ''/track/''" res w]
    by simp
  show "snd (snd (Track e event (Some p) w)) =
            w\<lparr>trace := trace w @
               [HttpGet (BaseURL c @ ''/track/?data='' @ base64_EncodeToString e js),
                BodyRead, BodyClose]\<rparr>"
    using assms g by (simp add: Track_unfold)
  show "fst (Track e event (Some p) w) =
            Return (case ioutil_ReadAll e res of
                      (body, Some err) \<Rightarrow> Some err
                    | (body, None) \<Rightarrow>
                        if body = ''1'' then None else Some ErrUnexpectedTrackResponse)"
    using assms g by (simp add: Track_unfold split: prod.splits option.splits)
next
  assume a: "profile_call e d w key v r \<and>
        json_Marshal e (VMap (Some (engage_data c d key v))) = Inr js \<and>
        http_Get e (BaseURL c @ ''/engage/?data='' @ base64_EncodeToString e js) = Inr res"
  then have r: "r = engage e d key v w"
    by (simp add: profile_call_engage)
  from a have g: "get e (BaseURL c @ ''/engage/'') (engage_data c d key v) w =
      (ioutil_ReadAll e res,
       w\<lparr>trace := trace w @
          [HttpGet (BaseURL c @ ''/engage/?data='' @ base64_EncodeToString e js),
           BodyRead, BodyClose]\<rparr>)"
    using get_success [of e "engage_data c d key v" js "BaseURL c @ ''/engage/''" res w]
    by simp
  show "snd r =
            w\<lparr>trace := trace w @
               [HttpGet (BaseURL c @ ''/engage/?data='' @ base64_EncodeToString e js),
                BodyRead, BodyClose]\<rparr>"
    using assms g r by (simp add: engage_unfold)
  show "fst r =
            Return (case ioutil_ReadAll e res of
                      (body, Some err) \<Rightarrow> Some err
                    | (body, None) \<Rightarrow>
                        if body = ''1'' then None else Some ErrUnexpectedEngageResponse)"
    using assms g r by (simp add: engage_unfold split: prod.splits option.splits)
qed

text \<open>\<^verbatim>\<open>Track\<close> and \<^verbatim>\<open>ProfileDelete\<close> against the stubbed transport.\<close>

theorem request_routine_witness:
  "mixpanel example_world = Some example_client
   \<and> json_Marshal (stub_env ''1'')
        (VMap (Some (fst (Track_data example_client ''Signed Up'' Map.empty)))) = Inr ''{}''
   \<and> http_Get (stub_env ''1'') ''https://api.mixpanel.com/track/?data=e30='' = Inr ''1''
   \<and> get (stub_env ''1'') ''https://api.mixpanel.com/track/''
        (fst (Track_data example_client ''Signed Up'' Map.empty)) example_world =
       ((''1'', None),
        example_world\<lparr>trace :=
          [HttpGet ''https://api.mixpanel.com/track/?data=e30='', BodyRead, BodyClose]\<rparr>)
   \<and> snd (snd (Track (stub_env ''1'') ''Signed Up'' (Some Map.empty) example_world)) =
       example_world\<lparr>trace :=
         [HttpGet ''https://api.mixpanel.com/track/?data=e30='', BodyRead, BodyClose]\<rparr>
   \<and> profile_call (stub_env ''1'') ''13793'' example_world
        ''$delete'' (VString '''') (ProfileDelete (stub_env ''1'') ''13793'' example_world)
   \<and> snd (ProfileDelete (stub_env ''1'') ''13793'' example_world) =
       example_world\<lparr>trace :=
         [HttpGet ''https://api.mixpanel.com/engage/?data=e30='', BodyRead, BodyClose]\<rparr>"
  using
    call_ProfileDelete [of "stub_env ''1''" "''13793''" example_world]
    request_routine
      [where w = example_world and c = example_client and e = "stub_env ''1''"
         and url = "''https://api.mixpanel.com/track/''"
         and data = "fst (Track_data example_client ''Signed Up'' Map.empty)"
         and js = "''{}''" and res = "''1''"
         and event = "''Signed Up''" and p = Map.empty
         and d = "''13793''" and key = "''$delete''" and v = "VString ''''"
         and r = "ProfileDelete (stub_env ''1'') ''13793'' example_world"]
  by (simp add: example_world_def example_client_def BASE_URL_def stub_env_def)

section \<open>Errors of the transport\<close>

text \<open>
  C7. The request routine fails with the error of \<^verbatim>\<open>json.Marshal\<close>, of
  \<^verbatim>\<open>http.Get\<close> or of \<^verbatim>\<open>ioutil.ReadAll\<close>, whichever fails first. Whenever it fails with
  an error for the envelope of a call of \<^verbatim>\<open>Track\<close>, of a profile method or of the alias
  method, the call returns that very error, not \<^verbatim>\<open>ErrUnexpectedTrackResponse\<close> or
  \<^verbatim>\<open>ErrUnexpectedEngageResponse\<close> in its place, whatever body was read.
\<close>

theorem transport_errors_pass_through:
  assumes "mixpanel w = Some c"
  shows
    "(json_Marshal e (VMap (Some data)) = Inl err \<longrightarrow>
        get e url data w = (('''', Some err), w))
     \<and> (json_Marshal e (VMap (Some data)) = Inr js \<and>
        http_Get e (url @ ''?data='' @ base64_EncodeToString e js) = Inl err \<longrightarrow>
        fst (get e url data w) = ('''', Some err))
     \<and> (json_Marshal e (VMap (Some data)) = Inr js \<and>
        http_Get e (url @ ''?data='' @ base64_EncodeToString e js) = Inr res \<and>
        ioutil_ReadAll e res = (body, Some err) \<longrightarrow>
        fst (get e url data w) = (body, Some err))
     \<and> (snd (fst (get e (BaseURL c @ ''/track/'') (fst (Track_data c event p)) w)) = Some err \<longrightarrow>
        fst (Track e event (Some p) w) = Return (Some err))
     \<and> (profile_call e d w key v r \<and>
        snd (fst (get e (BaseURL c @ ''/engage/'') (engage_data c d key v) w)) = Some err \<longrightarrow>
        fst r = Return (Some err))
     \<and> (snd (fst (get e (BaseURL c @ ''/track/'')
                 (fst (Track_data c ''$create_alias''
                    [''distinct_id'' \<mapsto> VString oldID, ''alias'' \<mapsto> VString newID])) w)) =
          Some err \<longrightarrow>
        fst (ProfileCreateAliasDistinctIdToAlias e oldID newID w) = Return (Some err))"
proof (intro conjI impI)
  assume "json_Marshal e (VMap (Some data)) = Inl err"
  then show "get e url data w = (('''', Some err), w)"
    by (simp add: get_cases)
next
  assume "json_Marshal e (VMap (Some data)) = Inr js \<and>
    http_Get e (url @ ''?data='' @ base64_EncodeToString e js) = Inl err"
  then show "fst (get e url data w) = ('''', Some err)"
    by (simp add: get_cases)
next
  assume "json_Marshal e (VMap (Some data)) = Inr js \<and>
    http_Get e (url @ ''?data='' @ base64_EncodeToString e js) = Inr res \<and>
    ioutil_ReadAll e res = (body, Some err)"
  then show "fst (get e url data w) = (body, Some err)"
    by (simp add: get_cases)
next
  assume "snd (fst (get e (BaseURL c @ ''/track/'') (fst (Track_data c event p)) w)) = Some err"
  with assms show "fst (Track e event (Some p) w) = Return (Some err)"
    by (simp add: Track_unfold)
next
  assume a: "profile_call e d w key v r \<and>
    snd (fst (get e (BaseURL c @ ''/engage/'') (engage_data c d key v) w)) = Some err"
  then have "r = engage e d key v w" by (simp add: profile_call_engage)
  with a assms show "fst r = Return (Some err)"
    by (simp add: engage_failure)
next
  assume "snd (fst (get e (BaseURL c @ ''/track/'')
                 (fst (Track_data c ''$create_alias''
                    [''distinct_id'' \<mapsto> VString oldID, ''alias'' \<mapsto> VString newID])) w)) =
          Some err"
  with assms show "fst (ProfileCreateAliasDistinctIdToAlias e oldID newID w) = Return (Some err)"
    by (simp add: alias_unfold Track_unfold)
qed

text \<open>
  A refused connection under \<^verbatim>\<open>Track\<close> and the alias method, and a body \<^verbatim>\<open>1\<close> cut
  short by a read error under \<^verbatim>\<open>ProfileDelete\<close>.
\<close>

theorem transport_errors_pass_through_witness:
  "mixpanel example_world = Some example_client
   \<and> http_Get ((stub_env ''1'')\<lparr>http_Get := \<lambda>url. Inl (Foreign ''connection refused'')\<rparr>)
        (''https://api.mixpanel.com/track/'' @ ''?data='' @ ''e30='') =
       Inl (Foreign ''connection refused'')
   \<and> fst (Track ((stub_env ''1'')\<lparr>http_Get := \<lambda>url. Inl (Foreign ''connection refused'')\<rparr>)
        ''Signed Up'' (Some Map.empty) example_world) =
       Return (Some (Foreign ''connection refused''))
   \<and> fst (ProfileCreateAliasDistinctIdToAlias
        ((stub_env ''1'')\<lparr>http_Get := \<lambda>url. Inl (Foreign ''connection refused'')\<rparr>)
        ''old1'' ''new1'' example_world) =
       Return (Some (Foreign ''connection refused''))
   \<and> profile_call
        ((stub_env ''1'')\<lparr>ioutil_ReadAll := \<lambda>res. (res, Some (Foreign ''unexpected EOF''))\<rparr>)
        ''13793'' example_world ''$delete'' (VString '''')
        (ProfileDelete
           ((stub_env ''1'')\<lparr>ioutil_ReadAll := \<lambda>res. (res, Some (Foreign ''unexpected EOF''))\<rparr>)
           ''13793'' example_world)
   \<and> fst (get
        ((stub_env ''1'')\<lparr>ioutil_ReadAll := \<lambda>res. (res, Some (Foreign ''unexpected EOF''))\<rparr>)
        (BaseURL example_client @ ''/engage/'')
        (engage_data example_client ''13793'' ''$delete'' (VString '''')) example_world) =
       (''1'', Some (Foreign ''unexpected EOF''))
   \<and> fst (ProfileDelete
        ((stub_env ''1'')\<lparr>ioutil_ReadAll := \<lambda>res. (res, Some (Foreign ''unexpected EOF''))\<rparr>)
        ''13793'' example_world) =
       Return (Some (Foreign ''unexpected EOF''))"
  using
    call_ProfileDelete
      [of "(stub_env ''1'')\<lparr>ioutil_ReadAll := \<lambda>res. (res, Some (Foreign ''unexpected EOF''))\<rparr>"
          "''13793''" example_world]
    transport_errors_pass_through
      [where w = example_world and c = example_client
         and e = "(stub_env ''1'')\<lparr>http_Get := \<lambda>url. Inl (Foreign ''connection refused'')\<rparr>"
         and err = "Foreign ''connection refused''"
         and event = "''Signed Up''" and p = Map.empty
         and oldID = "''old1''" and newID = "''new1''"]
    transport_errors_pass_through
      [where w = example_world and c = example_client
         and e = "(stub_env ''1'')\<lparr>ioutil_ReadAll :=
                    \<lambda>res. (res, Some (Foreign ''unexpected EOF''))\<rparr>"
         and err = "Foreign ''unexpected EOF''"
         and d = "''13793''" and key = "''$delete''" and v = "VString ''''"
         and r = "ProfileDelete
                    ((stub_env ''1'')\<lparr>ioutil_ReadAll :=
                       \<lambda>res. (res, Some (Foreign ''unexpected EOF''))\<rparr>)
                    ''13793'' example_world"]
  by (simp add: example_world_def get_def stub_env_def)

section \<open>The client is only read\<close>

text \<open>
  C9. No public method changes the client: after \<^verbatim>\<open>Track\<close>, each of the seven profile
  methods and the alias method, whatever the arguments and whatever the transport does,
  the struct behind the receiver, and so its token, base URL and override address, is
  what it was before the call.
\<close>

theorem client_unchanged:
  "mixpanel (snd (snd (Track e event properties w))) = mixpanel w
   \<and> mixpanel (snd (ProfileSet e distinctID properties w)) = mixpanel w
   \<and> mixpanel (snd (ProfileSetOnce e distinctID properties w)) = mixpanel w
   \<and> mixpanel (snd (ProfileAdd e distinctID amounts w)) = mixpanel w
   \<and> mixpanel (snd (ProfileAppend e distinctID properties w)) = mixpanel w
   \<and> mixpanel (snd (ProfileUnion e distinctID properties w)) = mixpanel w
   \<and> mixpanel (snd (ProfileUnset e distinctID names w)) = mixpanel w
   \<and> mixpanel (snd (ProfileDelete e distinctID w)) = mixpanel w
   \<and> mixpanel (snd (ProfileCreateAliasDistinctIdToAlias e oldID newID w)) = mixpanel w"
  by (simp add: profile_defs engage_mixpanel Track_mixpanel alias_unfold)

section \<open>Track needs a map\<close>

text \<open>
  C10. \<^verbatim>\<open>Track\<close> called on a client with a nil map for \<^verbatim>\<open>properties\<close> panics at the
  assignment of the key \<^verbatim>\<open>token\<close>: it returns no error, sends nothing and leaves the
  world as it was. Called with a map, it does not panic and returns an error or nil. So
  the assignment of the token needs the map to exist.
\<close>

theorem Track_nil_properties:
  assumes "mixpanel w = Some c"
  shows
    "Track e event None w = (Panic AssignmentToNilMap, None, w)
     \<and> (\<exists>result. fst (Track e event (Some p) w) = Return result)"
  using assms by (simp add: Track_def Let_def split: prod.splits)

theorem Track_nil_properties_witness:
  "mixpanel example_world = Some example_client
   \<and> Track (stub_env ''1'') ''Signed Up'' None example_world =
       (Panic AssignmentToNilMap, None, example_world)
   \<and> (\<exists>result. fst (Track (stub_env ''1'') ''Signed Up'' (Some Map.empty) example_world) =
         Return result)"
  using
    Track_nil_properties
      [where w = example_world and c = example_client and e = "stub_env ''1''"
         and event = "''Signed Up''" and p = Map.empty]
  by (simp add: example_world_def)

end
